theory Spec2Isabelle
  imports Complex_Main "HOL-Library.AList"
begin

text \<open>
  The decision workflow of the explainable-AI decision engine. The React views (customer
  portal, customer page, employee dashboard, review dashboard, policy manager, explanation
  editor, result screen) are embedded from their TypeScript sources: component state is a
  record, an event handler is a function from the state and the outcomes of the calls it
  awaits to the state afterwards. The workflow service the views call is modelled from the
  specification.
\<close>

section \<open>String primitives of the host language\<close>

text \<open>
  Strings are \<^typ>\<open>string\<close>, one \<^typ>\<open>char\<close> per code unit. The labels, statuses and
  vocabulary words the views compare are ASCII, so \<open>String.prototype.toLowerCase\<close> is
  modelled on the ASCII range: the letters \<open>A\<close> to \<open>Z\<close> move to \<open>a\<close> to \<open>z\<close>, every
  other code unit is kept.
\<close>

definition lower_char :: "char \<Rightarrow> char" where
  "lower_char c =
     (case map_of (zip ''ABCDEFGHIJKLMNOPQRSTUVWXYZ'' ''abcdefghijklmnopqrstuvwxyz'') c of
        Some l \<Rightarrow> l
      | None \<Rightarrow> c)"

definition toLowerCase :: "string \<Rightarrow> string" where
  "toLowerCase s = map lower_char s"

text \<open>\<open>String.prototype.startsWith\<close> and \<open>String.prototype.includes\<close>.\<close>

fun startsWith :: "string \<Rightarrow> string \<Rightarrow> bool" where
  "startsWith s [] = True"
| "startsWith [] (q # qs) = False"
| "startsWith (c # cs) (q # qs) = (c = q \<and> startsWith cs qs)"

fun includes_str :: "string \<Rightarrow> string \<Rightarrow> bool" where
  "includes_str [] q = (q = [])"
| "includes_str (c # cs) q = (startsWith (c # cs) q \<or> includes_str cs q)"

text \<open>
  \<open>String.prototype.trim\<close>: the white space among the code units a \<^typ>\<open>char\<close> can hold,
  which is tab, line feed, vertical tab, form feed, carriage return, space and the no-break
  space \<open>U+00A0\<close>. The remaining Unicode white space lies beyond the 8-bit code units.
\<close>

definition isSpace :: "char \<Rightarrow> bool" where
  "isSpace c = (c \<in> set [CHR 0x09, CHR 0x0A, CHR 0x0B, CHR 0x0C, CHR 0x0D, CHR '' '', CHR 0xA0])"

definition trim :: "string \<Rightarrow> string" where
  "trim s = rev (dropWhile isSpace (rev (dropWhile isSpace s)))"

text \<open>
  Numbers are exact rationals: the rounding, the overflow and the signed zero of doubles
  are not modelled. \<open>Number.prototype.toString\<close> renders the sign, the whole part and, when
  there is one, the decimal fraction (up to seventeen digits; the exponent notation of very
  large and very small numbers is not modelled).
\<close>

definition digit_char :: "nat \<Rightarrow> char" where
  "digit_char d = ''0123456789'' ! d"

fun nat_digits :: "nat \<Rightarrow> string" where
  "nat_digits n = (if n < 10 then [digit_char n] else nat_digits (n div 10) @ [digit_char (n mod 10)])"

declare nat_digits.simps [simp del]

fun frac_digits :: "nat \<Rightarrow> rat \<Rightarrow> string" where
  "frac_digits 0 r = []"
| "frac_digits (Suc n) r =
     (if r = 0 then []
      else digit_char (nat \<lfloor>r * 10\<rfloor>) # frac_digits n (r * 10 - of_int \<lfloor>r * 10\<rfloor>))"

definition number_toString :: "rat \<Rightarrow> string" where
  "number_toString r =
     (let a = \<bar>r\<bar>; w = \<lfloor>a\<rfloor>; f = a - of_int w
      in (if r < 0 then ''-'' else []) @ nat_digits (nat w)
         @ (if f = 0 then [] else CHR ''.'' # frac_digits 17 f))"

text \<open>
  Reading a decimal literal, the numeric text \<open>Number(text)\<close> accepts: an optional sign, the
  digits of the whole part, an optional fraction after a point, and an optional exponent
  after \<open>e\<close> or \<open>E\<close>; at least one digit stands before or after the point. The result is
  the value, or \<open>None\<close> for a text that is no such literal. The literals with a radix
  prefix and \<open>Infinity\<close> are not modelled.
\<close>

definition digit_of :: "char \<Rightarrow> nat option" where
  "digit_of c = map_of (zip ''0123456789'' [0, 1, 2, 3, 4, 5, 6, 7, 8, 9]) c"

definition is_digit :: "char \<Rightarrow> bool" where
  "is_digit c = (digit_of c \<noteq> None)"

definition digits_nat :: "string \<Rightarrow> nat" where
  "digits_nat ds = foldl (\<lambda>a c. 10 * a + (case digit_of c of Some d \<Rightarrow> d | None \<Rightarrow> 0)) 0 ds"

definition split_sign :: "string \<Rightarrow> bool \<times> string" where
  "split_sign s =
     (case s of
        [] \<Rightarrow> (False, [])
      | c # cs \<Rightarrow>
          if c = CHR ''-'' then (True, cs)
          else if c = CHR ''+'' then (False, cs)
          else (False, s))"

definition parse_exponent :: "string \<Rightarrow> int option" where
  "parse_exponent r =
     (case r of
        [] \<Rightarrow> Some 0
      | c # cs \<Rightarrow>
          if c = CHR ''e'' \<or> c = CHR ''E'' then
            (let neg = fst (split_sign cs); ds = snd (split_sign cs)
             in if ds \<noteq> [] \<and> list_all is_digit ds
                then Some (if neg then - int (digits_nat ds) else int (digits_nat ds))
                else None)
          else None)"

definition split_fraction :: "string \<Rightarrow> string \<times> string" where
  "split_fraction r =
     (case r of
        [] \<Rightarrow> ([], [])
      | c # cs \<Rightarrow>
          if c = CHR ''.'' then (takeWhile is_digit cs, dropWhile is_digit cs)
          else ([], r))"

definition scale10 :: "rat \<Rightarrow> int \<Rightarrow> rat" where
  "scale10 x e = (if 0 \<le> e then x * 10 ^ nat e else x / 10 ^ nat (- e))"

definition parse_decimal :: "string \<Rightarrow> rat option" where
  "parse_decimal s =
     (let neg = fst (split_sign s);
          body = snd (split_sign s);
          ip = takeWhile is_digit body;
          fp = fst (split_fraction (dropWhile is_digit body));
          ex = snd (split_fraction (dropWhile is_digit body))
      in if ip = [] \<and> fp = [] then None
         else (case parse_exponent ex of
                 None \<Rightarrow> None
               | Some e \<Rightarrow>
                   Some (scale10 ((if neg then - 1 else 1) * of_nat (digits_nat (ip @ fp)))
                           (e - int (length fp)))))"

section \<open>Data model of the views\<close>

text \<open>
  A form value is a string or a number, with \<open>NaN\<close> for the result of a failed coercion.
\<close>

datatype scalar = SStr string | SNum rat | SNaN

fun scalar_toString :: "scalar \<Rightarrow> string" where
  "scalar_toString (SStr s) = s"
| "scalar_toString (SNum n) = number_toString n"
| "scalar_toString SNaN = ''NaN''"

record model_output =
  label :: string
  confidence :: rat

record explanation =
  summary :: string

record decision =
  status :: string
  reasoning :: string
  decision_confidence :: rat

record fairness =
  assessment :: string
  concerns :: "string option"

record key_metrics =
  risk_score :: "rat option"
  approval_probability :: "rat option"
  critical_factors :: "string list"

record ai_result =
  decision :: decision
  alternative_reasoning :: "string option"
  counterfactuals :: "string list option"
  fairness :: "fairness option"
  key_metrics :: "key_metrics option"

record CaseData =
  decision_id :: string
  domain :: string
  input_features :: "(string \<times> scalar) list"
  applicant_name :: "string option"
  timestamp :: "string option"
  model_output :: model_output
  explanation :: explanation
  ai_result :: "ai_result option"
  is_override :: bool
  counterfactual :: "string option"

section \<open>Employee dashboard: statistics and the case list\<close>

definition positiveTerms :: "string list" where
  "positiveTerms = [''approved'', ''hired'', ''low risk'', ''low_risk'']"

record stats =
  pending :: int
  approved :: int
  declined :: int
  total :: int

text \<open>\<open>getStats\<close> of the dashboard; the category id is not used by the body.\<close>

definition getStats :: "CaseData list \<Rightarrow> string \<Rightarrow> stats" where
  "getStats data categoryId =
     (let pending = int (length (filter (\<lambda>d. label (model_output d) = ''Pending'') data));
          approved = int (length (filter (\<lambda>d. toLowerCase (label (model_output d)) \<in> set positiveTerms) data));
          declined = int (length data) - approved - pending
      in \<lparr> pending = pending, approved = approved, declined = declined, total = int (length data) \<rparr>)"

datatype FilterType = F_All | F_Approved | F_Denied | F_Pending

text \<open>
  \<open>filteredCases\<close>: no selected category gives the empty list, a category without an entry
  in the loaded data gives the empty list, then the status filter, then the search on the
  applicant id and the decision id.
\<close>

definition applicant_id_text :: "CaseData \<Rightarrow> string" where
  "applicant_id_text c =
     (case map_of (input_features c) ''applicant_id'' of
        None \<Rightarrow> ''''
      | Some v \<Rightarrow> scalar_toString v)"

definition statusFilter :: "FilterType \<Rightarrow> CaseData list \<Rightarrow> CaseData list" where
  "statusFilter f cases =
     (if f = F_Pending then filter (\<lambda>c. label (model_output c) = ''Pending'') cases
      else if f \<noteq> F_All then
        filter (\<lambda>c.
          if label (model_output c) = ''Pending'' then False
          else (let isPositive = toLowerCase (label (model_output c)) \<in> set positiveTerms
                in if f = F_Approved then isPositive else \<not> isPositive)) cases
      else cases)"

definition searchFilter :: "string \<Rightarrow> CaseData list \<Rightarrow> CaseData list" where
  "searchFilter searchQuery cases =
     filter (\<lambda>c. includes_str (applicant_id_text c) searchQuery
                \<or> includes_str (toLowerCase (decision_id c)) (toLowerCase searchQuery)) cases"

text \<open>
  A string-or-null value is falsy when it is null or the empty string; this is what
  \<open>!selectedCategory\<close>, \<open>x || fallback\<close> and \<open>if (x)\<close> test.
\<close>

fun truthy :: "string option \<Rightarrow> bool" where
  "truthy None = False"
| "truthy (Some s) = (s \<noteq> [])"

definition filteredCases ::
  "string option \<Rightarrow> (string \<rightharpoonup> CaseData list) \<Rightarrow> string \<Rightarrow> FilterType \<Rightarrow> CaseData list" where
  "filteredCases selectedCategory realData searchQuery f =
     (if \<not> truthy selectedCategory then []
      else
        (let cases = (case realData (the selectedCategory) of None \<Rightarrow> [] | Some cs \<Rightarrow> cs)
         in searchFilter searchQuery (statusFilter f cases)))"

section \<open>Employee dashboard: the approve and deny actions\<close>

datatype action = A_Approved | A_Denied

text \<open>
  What \<open>handleAction\<close> does first: nothing, the call of \<open>api.updateApplicationStatus\<close> with
  its four arguments (decision id, category, action, explanation), or the opening of the
  explanation editor in override mode with its initial text. After the call returns, the
  approve branch reloads the applications and re-selects the case.
\<close>

datatype action_effect =
    NoEffect
  | UpdateApplicationStatus string string action string
  | OpenOverrideEditor string action

definition approveExplanation :: "CaseData \<Rightarrow> string" where
  "approveExplanation activeCase =
     (let explanation = ''Manually approved by auditor based on provided evidence.''
      in case ai_result activeCase of
           None \<Rightarrow> explanation
         | Some ai \<Rightarrow>
             if toLowerCase (status (decision ai)) = ''approved'' then reasoning (decision ai)
             else if truthy (alternative_reasoning ai) then the (alternative_reasoning ai)
             else explanation)"

definition denyExplanation :: "CaseData \<Rightarrow> string" where
  "denyExplanation activeCase =
     (let explanation = ''Manually denied by auditor due to policy mismatch.''
      in case ai_result activeCase of
           None \<Rightarrow> explanation
         | Some ai \<Rightarrow>
             if toLowerCase (status (decision ai)) = ''rejected'' then reasoning (decision ai)
             else if truthy (alternative_reasoning ai) then the (alternative_reasoning ai)
             else explanation)"

definition handleAction :: "string option \<Rightarrow> CaseData option \<Rightarrow> action \<Rightarrow> action_effect" where
  "handleAction selectedCategory activeCase act =
     (if \<not> truthy selectedCategory \<or> activeCase = None then NoEffect
      else (case act of
              A_Approved \<Rightarrow>
                UpdateApplicationStatus (decision_id (the activeCase)) (the selectedCategory) act
                  (approveExplanation (the activeCase))
            | A_Denied \<Rightarrow> OpenOverrideEditor (denyExplanation (the activeCase)) A_Denied))"

section \<open>Customer result screen\<close>

text \<open>
  The \<open>decision\<close> property of the result is a plain string (the customer portal passes
  the label), an object with an optional \<open>status\<close>, or absent.
\<close>

datatype decision_value = DString string | DObject "string option" | DAbsent

record AiResultType =
  result_decision :: decision_value
  result_summary :: string
  result_counterfactuals :: "string list option"

definition decisionText :: "AiResultType \<Rightarrow> string" where
  "decisionText r =
     (case result_decision r of
        DString s \<Rightarrow> s
      | DObject st \<Rightarrow> (if truthy st then the st else [])
      | DAbsent \<Rightarrow> [])"

definition isDenied :: "AiResultType \<Rightarrow> bool" where
  "isDenied r = (toLowerCase (decisionText r) = ''denied'' \<or> toLowerCase (decisionText r) = ''high risk'')"

definition isApproved :: "AiResultType \<Rightarrow> bool" where
  "isApproved r = (\<not> isDenied r)"

text \<open>What \<open>AiResult\<close> renders: the icon, the heading and the steps to approval.\<close>

datatype icon = GreenCheck | RedCross

record result_view =
  view_icon :: icon
  view_heading :: string
  view_steps :: "string list option"

definition AiResult :: "AiResultType \<Rightarrow> result_view" where
  "AiResult r =
     \<lparr> view_icon = (if isApproved r then GreenCheck else RedCross),
       view_heading = (if isApproved r then ''Congratulations! Your application has been approved.''
                       else decisionText r),
       view_steps = (if \<not> isApproved r \<and> result_counterfactuals r \<noteq> None
                        \<and> length (the (result_counterfactuals r)) > 0
                     then result_counterfactuals r else None) \<rparr>"

section \<open>Promises and browser effects\<close>

text \<open>
  An awaited call either resolves with a value or rejects with an error message. What a
  handler writes with \<open>console.error\<close> goes to \<open>console\<close>; what it shows with \<open>alert\<close>
  goes to \<open>alerts\<close>. Every component state below extends this record.
\<close>

datatype 'a promise = Resolved 'a | Rejected string

record browser =
  console :: "string list"
  alerts :: "string list"

section \<open>Customer portal: status polling and submission\<close>

datatype PollStatus = poll_idle | poll_waiting | poll_completed

record status_response =
  st_model_output :: model_output
  st_explanation :: explanation
  st_ai_result :: "ai_result option"

record submit_response =
  resp_id :: string
  resp_status :: string
  resp_data :: "(string \<times> scalar) list"
  resp_ai_result :: "ai_result option"

record CustomerPortal_state = browser +
  applicationType :: "string option"
  formData :: "(string \<times> scalar) list"
  isSubmitting :: bool
  submittedId :: "string option"
  pollStatus :: PollStatus
  aiResult :: "AiResultType option"

text \<open>
  The polling effect installs an interval only while the portal waits for a submitted
  application; the value is the period in milliseconds.
\<close>

definition pollingInterval :: "CustomerPortal_state \<Rightarrow> nat option" where
  "pollingInterval st =
     (if pollStatus st = poll_waiting \<and> truthy (submittedId st) \<and> truthy (applicationType st)
      then Some 2000 else None)"

text \<open>
  One tick of that interval. The argument is what \<open>api.getApplicationStatus\<close> gave: a
  rejection, a null status, or a status.
\<close>

definition pollTick :: "status_response option promise \<Rightarrow> CustomerPortal_state \<Rightarrow> CustomerPortal_state" where
  "pollTick fetched st =
     (case fetched of
        Rejected e \<Rightarrow> st\<lparr> console := console st @ [''Polling Error '' @ e] \<rparr>
      | Resolved None \<Rightarrow> st
      | Resolved (Some fetched_status) \<Rightarrow>
          if label (st_model_output fetched_status) \<noteq> ''Pending'' then
            st\<lparr> aiResult := Some \<lparr> result_decision = DString (label (st_model_output fetched_status)),
                                   result_summary = summary (st_explanation fetched_status),
                                   result_counterfactuals =
                                     (case st_ai_result fetched_status of
                                        None \<Rightarrow> None
                                      | Some ai \<Rightarrow> counterfactuals ai) \<rparr>,
                pollStatus := poll_completed \<rparr>
          else st)"

text \<open>
  \<open>Number(v)\<close> on a form value: a number is kept, a text is trimmed and read as a decimal
  literal (the empty text is zero), and a text that is no literal is \<open>NaN\<close>. The
  truthiness of a possibly missing form value is what \<open>if (payload[field])\<close> tests.
\<close>

definition Number :: "scalar \<Rightarrow> scalar" where
  "Number v =
     (case v of
        SNum n \<Rightarrow> SNum n
      | SNaN \<Rightarrow> SNaN
      | SStr s \<Rightarrow>
          if trim s = [] then SNum 0
          else (case parse_decimal (trim s) of Some n \<Rightarrow> SNum n | None \<Rightarrow> SNaN))"

fun scalar_truthy :: "scalar option \<Rightarrow> bool" where
  "scalar_truthy None = False"
| "scalar_truthy (Some (SStr s)) = (s \<noteq> [])"
| "scalar_truthy (Some (SNum n)) = (n \<noteq> 0)"
| "scalar_truthy (Some SNaN) = False"

definition coerceField :: "(string \<times> scalar) list \<Rightarrow> string \<Rightarrow> (string \<times> scalar) list" where
  "coerceField payload field =
     (if scalar_truthy (map_of payload field)
      then AList.update field (Number (the (map_of payload field))) payload
      else payload)"

text \<open>
  \<open>handleFormSubmit\<close> of the portal. \<open>FORM_FIELDS\<close> is the form table of the constants module
  and \<open>submitApplication\<close> the API call; both are parameters.
\<close>

record form_field =
  field_name :: string
  field_label :: string
  field_type :: string
  field_options :: "string list option"

definition handleFormSubmit ::
  "(string \<rightharpoonup> form_field list)
   \<Rightarrow> (string option \<Rightarrow> (string \<times> scalar) list \<Rightarrow> submit_response promise)
   \<Rightarrow> CustomerPortal_state \<Rightarrow> CustomerPortal_state" where
  "handleFormSubmit FORM_FIELDS submitApplication st =
     (let st1 = st\<lparr> isSubmitting := True \<rparr>;
          fields = (case FORM_FIELDS (if truthy (applicationType st) then the (applicationType st) else ''loan'') of
                      None \<Rightarrow> []
                    | Some fs \<Rightarrow> fs);
          cleanedData = foldl (\<lambda>d field. if field_type field = ''number'' then coerceField d (field_name field) else d)
                          (formData st) fields
      in case submitApplication (applicationType st) cleanedData of
           Resolved response \<Rightarrow>
             st1\<lparr> submittedId := Some (resp_id response), pollStatus := poll_waiting, isSubmitting := False \<rparr>
         | Rejected e \<Rightarrow>
             st1\<lparr> console := console st1 @ [''Submission error: '' @ e],
                  alerts := alerts st1 @ [''Submission failed. Please try again.''],
                  isSubmitting := False \<rparr>)"

section \<open>Customer page: submission\<close>

record CustomerPage_state = browser +
  page_domain :: string
  page_loading :: bool
  success :: "submit_response option"
  page_error :: "string option"
  page_formData :: "(string \<times> scalar) list"

definition numericFields :: "string list" where
  "numericFields =
     [''age'', ''monthly_income'', ''existing_debt'', ''credit_score'', ''loan_amount'',
      ''employment_years'', ''annual_income'', ''accounts_open'', ''policy_years'',
      ''claim_amount'', ''annual_premium'', ''years_experience'', ''expected_salary'']"

definition handleSubmit ::
  "(string \<Rightarrow> (string \<times> scalar) list \<Rightarrow> submit_response promise)
   \<Rightarrow> CustomerPage_state \<Rightarrow> CustomerPage_state" where
  "handleSubmit submitApplication st =
     (let st1 = st\<lparr> page_loading := True, page_error := None, success := None \<rparr>;
          payload = foldl coerceField (page_formData st) numericFields
      in case submitApplication (page_domain st) payload of
           Resolved result \<Rightarrow> st1\<lparr> success := Some result, page_loading := False \<rparr>
         | Rejected message \<Rightarrow>
             st1\<lparr> console := console st1 @ [message],
                  page_error := Some (if message \<noteq> [] then message else ''Failed to submit application''),
                  page_loading := False \<rparr>)"

section \<open>Policy manager\<close>

record policy =
  policy_id :: string
  policy_text :: string

record PolicyManager_state = browser +
  activeDomain :: string
  policies :: "(string \<times> policy list) list"
  newPolicyText :: string
  pm_loading :: bool
  dragActive :: bool

text \<open>
  The handlers take the outcome of each API call they await: \<open>getPolicies\<close> for the reload,
  and \<open>addPolicy\<close>, \<open>deletePolicy\<close>, \<open>uploadPolicyFile\<close> as functions of their arguments.
\<close>

definition loadPolicies ::
  "(string \<times> policy list) list promise \<Rightarrow> PolicyManager_state \<Rightarrow> PolicyManager_state" where
  "loadPolicies getPolicies st =
     (case getPolicies of
        Resolved data \<Rightarrow> st\<lparr> policies := data \<rparr>
      | Rejected e \<Rightarrow> st\<lparr> console := console st @ [''Error loading policies: '' @ e] \<rparr>)"

definition handleAddPolicy ::
  "(string \<Rightarrow> string \<Rightarrow> unit promise) \<Rightarrow> (string \<times> policy list) list promise
   \<Rightarrow> PolicyManager_state \<Rightarrow> PolicyManager_state" where
  "handleAddPolicy addPolicy getPolicies st =
     (if trim (newPolicyText st) = [] then st
      else
        (let st1 = st\<lparr> pm_loading := True \<rparr>
         in case addPolicy (activeDomain st) (trim (newPolicyText st)) of
              Resolved u \<Rightarrow> (loadPolicies getPolicies (st1\<lparr> newPolicyText := [] \<rparr>))\<lparr> pm_loading := False \<rparr>
            | Rejected e \<Rightarrow>
                st1\<lparr> console := console st1 @ [''Error adding policy: '' @ e], pm_loading := False \<rparr>))"

definition handleDeletePolicy ::
  "(string \<Rightarrow> string \<Rightarrow> unit promise) \<Rightarrow> (string \<times> policy list) list promise
   \<Rightarrow> string \<Rightarrow> PolicyManager_state \<Rightarrow> PolicyManager_state" where
  "handleDeletePolicy deletePolicy getPolicies policyId st =
     (let st1 = st\<lparr> pm_loading := True \<rparr>
      in case deletePolicy (activeDomain st) policyId of
           Resolved u \<Rightarrow> (loadPolicies getPolicies st1)\<lparr> pm_loading := False \<rparr>
         | Rejected e \<Rightarrow>
             st1\<lparr> console := console st1 @ [''Error deleting policy: '' @ e], pm_loading := False \<rparr>)"

definition handleFileUpload ::
  "(string \<Rightarrow> string \<Rightarrow> unit promise) \<Rightarrow> (string \<times> policy list) list promise
   \<Rightarrow> string \<Rightarrow> PolicyManager_state \<Rightarrow> PolicyManager_state" where
  "handleFileUpload uploadPolicyFile getPolicies file st =
     (let st1 = st\<lparr> pm_loading := True \<rparr>
      in case uploadPolicyFile (activeDomain st) file of
           Resolved u \<Rightarrow> (loadPolicies getPolicies st1)\<lparr> pm_loading := False \<rparr>
         | Rejected e \<Rightarrow>
             st1\<lparr> console := console st1 @ [''Error uploading file: '' @ e],
                  alerts := alerts st1 @ [''Error uploading file. Please check the format.''],
                  pm_loading := False \<rparr>)"

section \<open>Explanation editor\<close>

record ExplanationEditor_state = browser +
  ed_explanation :: string
  ed_loading :: bool
  ed_error :: "string option"

text \<open>
  The calls \<open>handleSave\<close> makes, in order: the \<open>onSubmit\<close> callback of the override mode or
  \<open>updateExplanation\<close> of the API, then \<open>onSave\<close> and \<open>onClose\<close>. \<open>perform\<close> is the outcome
  of the awaited first call.
\<close>

datatype editor_call = OnSubmit string | UpdateExplanation string string | OnSave | OnClose

definition handleSave ::
  "string \<Rightarrow> bool \<Rightarrow> (editor_call \<Rightarrow> unit promise)
   \<Rightarrow> ExplanationEditor_state \<Rightarrow> ExplanationEditor_state \<times> editor_call list" where
  "handleSave applicationId hasOnSubmit perform st =
     (if trim (ed_explanation st) = [] then
        (st\<lparr> ed_error := Some ''Explanation cannot be empty'' \<rparr>, [])
      else
        (let st1 = st\<lparr> ed_loading := True, ed_error := None \<rparr>;
             call = (if hasOnSubmit then OnSubmit (trim (ed_explanation st))
                     else UpdateExplanation applicationId (trim (ed_explanation st)))
         in case perform call of
              Resolved u \<Rightarrow> (st1\<lparr> ed_loading := False \<rparr>, [call, OnSave, OnClose])
            | Rejected e \<Rightarrow>
                (st1\<lparr> console := console st1 @ [''Error saving explanation: '' @ e],
                      ed_error := Some ''Failed to save explanation. Please try again.'',
                      ed_loading := False \<rparr>, [call])))"

section \<open>Review dashboard: listing poll and decisions\<close>

record Application =
  app_id :: string
  app_domain :: string
  app_status :: string
  app_data :: "(string \<times> scalar) list"
  app_ai_result :: "ai_result option"
  app_timestamp :: "string option"

datatype Tab = tab_pending | tab_history

datatype review = R_approved | R_rejected

record Dashboard_state = browser +
  activeTab :: Tab
  applications :: "Application list"
  selectedApp :: "Application option"
  dash_loading :: bool
  processingId :: "string option"
  filterDomain :: string
  isUploading :: bool

text \<open>The listing is fetched once when the tab is shown and then every five seconds.\<close>

definition dashboardPollingInterval :: nat where
  "dashboardPollingInterval = 5000"

definition statusQuery :: "Dashboard_state \<Rightarrow> string" where
  "statusQuery st = (if activeTab st = tab_pending then ''pending_human'' else ''completed'')"

definition fetchApplications ::
  "(string \<Rightarrow> Application list promise) \<Rightarrow> Dashboard_state \<Rightarrow> Dashboard_state" where
  "fetchApplications getApplications st =
     (let st1 = (if length (applications st) = 0 then st\<lparr> dash_loading := True \<rparr> else st)
      in case getApplications (statusQuery st) of
           Resolved data \<Rightarrow> st1\<lparr> applications := data, dash_loading := False \<rparr>
         | Rejected e \<Rightarrow> st1\<lparr> console := console st1 @ [e], dash_loading := False \<rparr>)"

definition handleDecision ::
  "(string \<Rightarrow> review \<Rightarrow> string \<Rightarrow> unit promise) \<Rightarrow> review \<Rightarrow> Dashboard_state \<Rightarrow> Dashboard_state" where
  "handleDecision reviewApplication dec st =
     (case selectedApp st of
        None \<Rightarrow> st
      | Some app \<Rightarrow>
          (let appId = app_id app;
               st1 = st\<lparr> applications := filter (\<lambda>a. app_id a \<noteq> appId) (applications st),
                         selectedApp := None \<rparr>
           in case reviewApplication appId dec ''Manual review by employee'' of
                Resolved u \<Rightarrow> st1
              | Rejected e \<Rightarrow>
                  st1\<lparr> console := console st1 @ [''Decision failed '' @ e],
                       alerts := alerts st1 @ [''Failed to submit decision. Please refresh.''] \<rparr>))"

section \<open>Application workflow and decision store\<close>

text \<open>
  The views above call the workflow through the API module; the workflow itself (the
  service behind \<open>submitApplication\<close>, \<open>updateApplicationStatus\<close> and \<open>updateExplanation\<close>) is
  not among the source files. This section models it from the specification: its state
  machine (section 4.1), its store contract (4.2) and its error taxonomy (7). Every
  operation takes the store and returns its result together with the store afterwards.
\<close>

text \<open>Modelled from the spec: the lifecycle states of section 4.1.\<close>

datatype lifecycle = pending_ai | pending_human | completed

text \<open>Modelled from the spec: the error taxonomy of section 7.\<close>

datatype error = ValidationError string | NotFound | ClassificationError | ConflictError

text \<open>Modelled from the spec: the application record of section 3, the record the views
  read extended with the lifecycle state.
\<close>

record application = CaseData +
  rec_status :: lifecycle

text \<open>Modelled from the spec: the decision store, one collection keyed by \<open>decision_id\<close>; the
  counter yields the identifiers.
\<close>

record decision_store =
  records :: "string \<rightharpoonup> application"
  next_id :: nat

text \<open>Modelled from the spec: the store before any submission.\<close>

definition empty_store :: decision_store where
  "empty_store = \<lparr> records = Map.empty, next_id = 0 \<rparr>"

text \<open>Modelled from the spec: the kinds of form field, text or number.\<close>

datatype field_kind = TextField | NumberField

text \<open>Modelled from the spec: the required-field set of each domain. The specification leaves
  the set to the domain's form schema; the fields and their kinds are those of the forms
  of the customer page, all of them required.
\<close>

definition schema :: "string \<Rightarrow> (string \<times> field_kind) list option" where
  "schema d =
     (if d = ''loan'' then
        Some [(''full_name'', TextField), (''age'', NumberField), (''gender'', TextField),
              (''marital_status'', TextField), (''employment_years'', NumberField),
              (''employment_type'', TextField), (''monthly_income'', NumberField),
              (''existing_debt'', NumberField), (''credit_score'', NumberField),
              (''loan_amount'', NumberField), (''loan_purpose'', TextField)]
      else if d = ''job'' then
        Some [(''full_name'', TextField), (''job_title'', TextField), (''years_experience'', NumberField),
              (''education_level'', TextField), (''companies_worked'', NumberField),
              (''career_gaps'', NumberField), (''expected_salary'', NumberField)]
      else if d = ''credit'' then
        Some [(''full_name'', TextField), (''customer_id'', TextField), (''credit_score'', NumberField),
              (''annual_income'', NumberField), (''accounts_open'', NumberField),
              (''credit_history_years'', NumberField), (''defaults'', NumberField)]
      else if d = ''insurance'' then
        Some [(''full_name'', TextField), (''age'', NumberField), (''policy_type'', TextField),
              (''policy_years'', NumberField), (''previous_claims'', NumberField),
              (''claim_amount'', NumberField), (''incident_severity'', TextField)]
      else None)"

text \<open>Modelled from the spec: the signs a numeric text may carry, none, plus or minus.\<close>

definition sign_texts :: "string set" where
  "sign_texts = {[], ''+'', ''-''}"

text \<open>Modelled from the spec: the exponent of a numeric text, \<open>e\<close> or \<open>E\<close>, an optional
  sign and at least one digit.
\<close>

definition exponent_part :: "string \<Rightarrow> bool" where
  "exponent_part ex =
     (\<exists>c sg ds. ex = c # sg @ ds \<and> (c = CHR ''e'' \<or> c = CHR ''E'') \<and> sg \<in> sign_texts
        \<and> ds \<noteq> [] \<and> list_all is_digit ds)"

text \<open>Modelled from the spec: a text that parses as a number. The specification only says
  that a numeric field must parse; this is the decimal notation of numbers: an optional
  sign, the digits of the whole part, an optional point with the digits of the fraction,
  and an optional exponent, with at least one digit before or after the point. It is
  stated by the shape of the text, apart from the reader \<open>parse_decimal\<close>.
\<close>

definition numeric_literal :: "string \<Rightarrow> bool" where
  "numeric_literal s =
     (\<exists>sg ip fp ex. s = sg @ ip @ fp @ ex
        \<and> sg \<in> sign_texts
        \<and> list_all is_digit ip
        \<and> (fp = [] \<or> (\<exists>f. fp = CHR ''.'' # f \<and> list_all is_digit f))
        \<and> (ip \<noteq> [] \<or> (\<exists>f. fp = CHR ''.'' # f \<and> f \<noteq> []))
        \<and> (ex = [] \<or> exponent_part ex))"

text \<open>Modelled from the spec: type coercion of a submitted value, as the service runs it. A
  number is a number, a text coerces when the reader accepts it once the surrounding white
  space is dropped, \<open>NaN\<close> does not.
\<close>

fun parses_as_number :: "scalar \<Rightarrow> bool" where
  "parses_as_number (SNum n) = True"
| "parses_as_number SNaN = False"
| "parses_as_number (SStr s) = (parse_decimal (trim s) \<noteq> None)"

text \<open>Modelled from the spec: a required field is valid when the payload has it and, for a
  number field, its value coerces.
\<close>

fun field_valid :: "(string \<times> scalar) list \<Rightarrow> string \<times> field_kind \<Rightarrow> bool" where
  "field_valid payload (name, kind) =
     (case map_of payload name of
        None \<Rightarrow> False
      | Some v \<Rightarrow> (case kind of TextField \<Rightarrow> True | NumberField \<Rightarrow> parses_as_number v))"

text \<open>Modelled from the spec: validation of a payload against the required-field set of its
  domain; a domain without a schema has no valid payload.
\<close>

definition validate :: "string \<Rightarrow> (string \<times> scalar) list \<Rightarrow> bool" where
  "validate d payload =
     (case schema d of None \<Rightarrow> False | Some fs \<Rightarrow> list_all (field_valid payload) fs)"

text \<open>Modelled from the spec: the record Submit creates, in \<open>pending_ai\<close> with the sentinel
  label \<open>Pending\<close>, no AI result and no override.
\<close>

definition new_record :: "string \<Rightarrow> string \<Rightarrow> string \<Rightarrow> (string \<times> scalar) list \<Rightarrow> application" where
  "new_record i now d payload =
     \<lparr> decision_id = i, domain = d, input_features = payload,
       applicant_name = (case map_of payload ''full_name'' of Some (SStr n) \<Rightarrow> Some n | _ \<Rightarrow> None),
       timestamp = Some now,
       model_output = \<lparr> label = ''Pending'', confidence = 0 \<rparr>,
       explanation = \<lparr> summary = [] \<rparr>,
       ai_result = None, is_override = False, counterfactual = None,
       rec_status = pending_ai \<rparr>"

text \<open>Modelled from the spec: Submit (transition 1). An invalid payload is rejected and the
  store is left as it was; a valid one gets a new identifier and is stored, and the record
  is returned. Classification is a separate transition.
\<close>

definition submit ::
  "decision_store \<Rightarrow> string \<Rightarrow> string \<Rightarrow> (string \<times> scalar) list \<Rightarrow> (error + application) \<times> decision_store" where
  "submit s now d payload =
     (if \<not> validate d payload then (Inl (ValidationError ''missing or malformed field''), s)
      else
        (let i = ''app-'' @ nat_digits (next_id s);
             r = new_record i now d payload
         in (Inr r, s\<lparr> records := (records s)(i \<mapsto> r), next_id := Suc (next_id s) \<rparr>)))"

text \<open>Modelled from the spec: Classify (transition 2), from \<open>pending_ai\<close> only. The classifier's
  answer is a parameter (\<open>None\<close> when it fails, which leaves the record in \<open>pending_ai\<close>), and
  so is the policy decision whether the outcome is clear-cut.
\<close>

definition classify ::
  "decision_store \<Rightarrow> string \<Rightarrow> ai_result option \<Rightarrow> bool \<Rightarrow> (error + unit) \<times> decision_store" where
  "classify s i answer clear_cut =
     (case records s i of
        None \<Rightarrow> (Inl NotFound, s)
      | Some r \<Rightarrow>
          if rec_status r \<noteq> pending_ai then (Inl ConflictError, s)
          else (case answer of
                  None \<Rightarrow> (Inl ClassificationError, s)
                | Some ai \<Rightarrow>
                    (Inr (),
                     s\<lparr> records := (records s)(i \<mapsto>
                          r\<lparr> model_output := \<lparr> label = status (decision ai),
                                               confidence = decision_confidence (decision ai) \<rparr>,
                             explanation := \<lparr> summary = reasoning (decision ai) \<rparr>,
                             ai_result := Some ai,
                             rec_status := (if clear_cut then completed else pending_human) \<rparr>) \<rparr>)))"

text \<open>Modelled from the spec: the status text of a human decision, \<open>Approved\<close> or \<open>Denied\<close>.\<close>

fun action_text :: "action \<Rightarrow> string" where
  "action_text A_Approved = ''Approved''"
| "action_text A_Denied = ''Denied''"

text \<open>Modelled from the spec: HumanDecide (transition 3), from \<open>pending_human\<close>, and again from
  \<open>completed\<close> for a re-review. It sets the label and the explanation, computes the
  override flag when an AI result is present, and completes the record.
\<close>

definition humanDecide ::
  "decision_store \<Rightarrow> string \<Rightarrow> action \<Rightarrow> string \<Rightarrow> (error + unit) \<times> decision_store" where
  "humanDecide s i act text =
     (case records s i of
        None \<Rightarrow> (Inl NotFound, s)
      | Some r \<Rightarrow>
          if rec_status r = pending_ai then (Inl ConflictError, s)
          else
            (Inr (),
             s\<lparr> records := (records s)(i \<mapsto>
                  r\<lparr> model_output := (model_output r)\<lparr> label := action_text act \<rparr>,
                     explanation := \<lparr> summary = text \<rparr>,
                     is_override :=
                       (case ai_result r of
                          None \<Rightarrow> is_override r
                        | Some ai \<Rightarrow> toLowerCase (action_text act) \<noteq> toLowerCase (status (decision ai))),
                     rec_status := completed \<rparr>) \<rparr>))"

text \<open>Modelled from the spec: EditExplanation (transition 4), permitted in every state.\<close>

definition editExplanation ::
  "decision_store \<Rightarrow> string \<Rightarrow> string \<Rightarrow> (error + unit) \<times> decision_store" where
  "editExplanation s i text =
     (case records s i of
        None \<Rightarrow> (Inl NotFound, s)
      | Some r \<Rightarrow> (Inr (), s\<lparr> records := (records s)(i \<mapsto> r\<lparr> explanation := \<lparr> summary = text \<rparr> \<rparr>) \<rparr>))"

text \<open>Modelled from the spec: \<open>get\<close> of the store contract.\<close>

definition get :: "decision_store \<Rightarrow> string \<Rightarrow> error + application" where
  "get s i = (case records s i of None \<Rightarrow> Inl NotFound | Some r \<Rightarrow> Inr r)"

text \<open>Modelled from the spec: the stores the workflow can reach from the empty store by its
  four transitions, with any arguments.
\<close>

inductive reachable :: "decision_store \<Rightarrow> bool" where
  reach_empty: "reachable empty_store"
| reach_submit: "reachable s \<Longrightarrow> reachable (snd (submit s now d payload))"
| reach_classify: "reachable s \<Longrightarrow> reachable (snd (classify s i answer clear_cut))"
| reach_humanDecide: "reachable s \<Longrightarrow> reachable (snd (humanDecide s i act text))"
| reach_editExplanation: "reachable s \<Longrightarrow> reachable (snd (editExplanation s i text))"

text \<open>Modelled from the spec: the override invariant of section 3 on one record. An override
  flag is only set on a completed record that has an AI result whose status differs,
  lowercased, from the label.
\<close>

definition override_consistent :: "application \<Rightarrow> bool" where
  "override_consistent r =
     (is_override r \<longrightarrow>
        rec_status r = completed
        \<and> (case ai_result r of
             None \<Rightarrow> False
           | Some ai \<Rightarrow> toLowerCase (label (model_output r)) \<noteq> toLowerCase (status (decision ai))))"

section \<open>Example data\<close>

definition example_ai :: ai_result where
  "example_ai =
     \<lparr> decision = \<lparr> status = ''Denied'', reasoning = ''Credit score below threshold.'',
                     decision_confidence = 82 / 100 \<rparr>,
       alternative_reasoning = Some ''Income verified manually.'',
       counterfactuals = Some [''Raise the credit score above 600.''],
       fairness = None, key_metrics = None \<rparr>"

definition example_case :: CaseData where
  "example_case =
     \<lparr> decision_id = ''a1b2c3'', domain = ''loan'',
       input_features = [(''applicant_id'', SNum 17), (''credit_score'', SNum 550)],
       applicant_name = Some ''Ada'', timestamp = None,
       model_output = \<lparr> label = ''Pending'', confidence = 82 / 100 \<rparr>,
       explanation = \<lparr> summary = ''Credit score below threshold.'' \<rparr>,
       ai_result = Some example_ai, is_override = False, counterfactual = None \<rparr>"

definition example_labelled :: "string \<Rightarrow> string \<Rightarrow> CaseData" where
  "example_labelled i l =
     \<lparr> decision_id = i, domain = ''loan'', input_features = [],
       applicant_name = None, timestamp = None,
       model_output = \<lparr> label = l, confidence = 1 / 2 \<rparr>,
       explanation = \<lparr> summary = ''Awaiting review.'' \<rparr>,
       ai_result = None, is_override = False, counterfactual = None \<rparr>"

definition example_cases :: "CaseData list" where
  "example_cases =
     [example_labelled ''c1'' ''Approved'', example_labelled ''c2'' ''Pending'',
      example_labelled ''c3'' ''Denied'', example_labelled ''c4'' ''LOW RISK'',
      example_labelled ''c5'' ''pending'']"

definition example_portal :: CustomerPortal_state where
  "example_portal =
     \<lparr> console = [], alerts = [],
       applicationType = Some ''loan'', formData = [(''credit_score'', SStr ''550'')],
       isSubmitting = False, submittedId = Some ''a1b2c3'', pollStatus = poll_waiting,
       aiResult = None \<rparr>"

definition example_status :: "string \<Rightarrow> status_response" where
  "example_status l =
     \<lparr> st_model_output = \<lparr> label = l, confidence = 82 / 100 \<rparr>,
       st_explanation = \<lparr> summary = ''Credit score below threshold.'' \<rparr>,
       st_ai_result = Some example_ai \<rparr>"

definition dashboard_initial :: Dashboard_state where
  "dashboard_initial =
     \<lparr> console = [], alerts = [],
       activeTab = tab_pending, applications = [], selectedApp = None, dash_loading = True,
       processingId = None, filterDomain = ''all'', isUploading = False \<rparr>"

definition example_policy_manager :: PolicyManager_state where
  "example_policy_manager =
     \<lparr> console = [], alerts = [],
       activeDomain = ''loan'', policies = [], newPolicyText = ''Reject scores below 500'',
       pm_loading = False, dragActive = False \<rparr>"

definition example_payload :: "(string \<times> scalar) list" where
  "example_payload =
     [(''full_name'', SStr ''Ada Lovelace''), (''age'', SNum 36), (''gender'', SStr ''F''),
      (''marital_status'', SStr ''Single''), (''employment_years'', SNum 8),
      (''employment_type'', SStr ''Permanent''), (''monthly_income'', SStr ''4200.50''),
      (''existing_debt'', SStr ''1e3''), (''credit_score'', SStr '' 550 ''),
      (''loan_amount'', SNum 50000), (''loan_purpose'', SStr ''Home'')]"

definition example_bad_payload :: "(string \<times> scalar) list" where
  "example_bad_payload = AList.update ''credit_score'' (SStr ''five hundred'') example_payload"

definition store1 :: decision_store where
  "store1 = snd (submit empty_store ''2024-05-01'' ''loan'' example_payload)"

definition store2 :: decision_store where
  "store2 = snd (classify store1 ''app-0'' (Some example_ai) False)"

definition store3 :: decision_store where
  "store3 = snd (humanDecide store2 ''app-0'' A_Approved ''Approved after manual income verification'')"

section \<open>Verified properties\<close>

subsection \<open>Case list and statistics\<close>

lemma lower_Pending: "toLowerCase ''Pending'' = ''pending''"
  by (simp add: toLowerCase_def lower_char_def)

lemma pending_not_positive: "toLowerCase ''Pending'' \<notin> set positiveTerms"
  by (simp add: lower_Pending positiveTerms_def)

lemma includes_empty: "includes_str s [] = True"
  by (cases s) simp_all

lemma searchFilter_empty: "searchFilter [] cases = cases"
  by (simp add: searchFilter_def includes_empty)

text \<open>
  C1. With an empty search query and a selected category that has a list of cases, the
  filter \<open>Approved\<close> keeps exactly the cases whose lowercased label is in the positive
  vocabulary, \<open>Pending\<close> keeps exactly the cases whose label is \<open>Pending\<close>, and
  \<open>Denied\<close> keeps exactly the cases whose label is neither \<open>Pending\<close> nor positive;
  the order of the list is kept.
\<close>
theorem filteredCases_correct:
  assumes "d \<noteq> []"
  shows "filteredCases (Some d) (realData(d \<mapsto> cases)) '''' F_Approved
     = filter (\<lambda>c. toLowerCase (label (model_output c)) \<in> set positiveTerms) cases
   \<and> filteredCases (Some d) (realData(d \<mapsto> cases)) '''' F_Pending
     = filter (\<lambda>c. label (model_output c) = ''Pending'') cases
   \<and> filteredCases (Some d) (realData(d \<mapsto> cases)) '''' F_Denied
     = filter (\<lambda>c. label (model_output c) \<noteq> ''Pending''
                    \<and> toLowerCase (label (model_output c)) \<notin> set positiveTerms) cases"
  unfolding filteredCases_def statusFilter_def
  using pending_not_positive assms
  by (auto simp: searchFilter_empty Let_def intro!: filter_cong)

lemma example_lower:
  "toLowerCase ''Approved'' = ''approved''" "toLowerCase ''Denied'' = ''denied''"
  "toLowerCase ''LOW RISK'' = ''low risk''" "toLowerCase ''pending'' = ''pending''"
  by (simp_all add: toLowerCase_def lower_char_def)

theorem filteredCases_correct_witness:
  "''loan'' \<noteq> []
   \<and> filteredCases (Some ''loan'') [''loan'' \<mapsto> example_cases] '''' F_Approved
       = [example_labelled ''c1'' ''Approved'', example_labelled ''c4'' ''LOW RISK'']
   \<and> filteredCases (Some ''loan'') [''loan'' \<mapsto> example_cases] '''' F_Pending
       = [example_labelled ''c2'' ''Pending'']
   \<and> filteredCases (Some ''loan'') [''loan'' \<mapsto> example_cases] '''' F_Denied
       = [example_labelled ''c3'' ''Denied'', example_labelled ''c5'' ''pending'']"
proof -
  have h: "''loan'' \<noteq> []" by simp
  from filteredCases_correct [OF h, of Map.empty example_cases]
  show ?thesis
    by (simp add: example_cases_def example_labelled_def example_lower lower_Pending positiveTerms_def)
qed

text \<open>
  C7. \<open>getStats\<close> counts as pending the cases labelled exactly \<open>Pending\<close>, as approved
  the cases whose lowercased label is in the positive vocabulary, and as declined the total
  minus both; the declined count is the number of non-pending cases outside the positive
  vocabulary, and the three counts add up to the total.
\<close>
theorem getStats_partition:
  "pending (getStats data cid) = int (length (filter (\<lambda>d. label (model_output d) = ''Pending'') data))
 \<and> approved (getStats data cid) = int (length (filter (\<lambda>d. toLowerCase (label (model_output d)) \<in> set positiveTerms) data))
 \<and> declined (getStats data cid) = total (getStats data cid) - approved (getStats data cid) - pending (getStats data cid)
 \<and> total (getStats data cid) = int (length data)
 \<and> declined (getStats data cid) = int (length (filter (\<lambda>d. label (model_output d) \<noteq> ''Pending''
                    \<and> toLowerCase (label (model_output d)) \<notin> set positiveTerms) data))
 \<and> pending (getStats data cid) + approved (getStats data cid) + declined (getStats data cid) = total (getStats data cid)"
proof -
  have "length data = length (filter (\<lambda>d. label (model_output d) = ''Pending'') data)
      + length (filter (\<lambda>d. toLowerCase (label (model_output d)) \<in> set positiveTerms) data)
      + length (filter (\<lambda>d. label (model_output d) \<noteq> ''Pending''
                    \<and> toLowerCase (label (model_output d)) \<notin> set positiveTerms) data)"
    using pending_not_positive by (induction data) auto
  then show ?thesis by (simp add: getStats_def Let_def)
qed

theorem getStats_partition_witness:
  "getStats example_cases ''loan'' = \<lparr> pending = 1, approved = 2, declined = 2, total = 5 \<rparr>"
proof -
  from getStats_partition [of example_cases "''loan''"]
  have "pending (getStats example_cases ''loan'') = 1 \<and> approved (getStats example_cases ''loan'') = 2
      \<and> declined (getStats example_cases ''loan'') = 2 \<and> total (getStats example_cases ''loan'') = 5"
    by (simp add: example_cases_def example_labelled_def example_lower lower_Pending positiveTerms_def)
  then show ?thesis by (cases "getStats example_cases ''loan''") simp
qed

subsection \<open>Approve action and result screen\<close>

text \<open>
  C9. An approval of an active case calls \<open>updateApplicationStatus\<close> with the AI's reasoning
  when the AI result is present with a status that lowercases to \<open>approved\<close>, with the
  alternative reasoning when the AI result has another status and a non-empty alternative
  reasoning, and with the fixed auditor text otherwise.
\<close>
theorem handleAction_approved_explanation:
  assumes "truthy selectedCategory"
  shows "\<exists>e. handleAction selectedCategory (Some c) A_Approved
               = UpdateApplicationStatus (decision_id c) (the selectedCategory) A_Approved e
           \<and> (\<forall>ai. ai_result c = Some ai \<and> toLowerCase (status (decision ai)) = ''approved''
                  \<longrightarrow> e = reasoning (decision ai))
           \<and> (\<forall>ai t. ai_result c = Some ai \<and> toLowerCase (status (decision ai)) \<noteq> ''approved''
                    \<and> alternative_reasoning ai = Some t \<and> t \<noteq> [] \<longrightarrow> e = t)
           \<and> ((ai_result c = None
                \<or> (\<exists>ai. ai_result c = Some ai \<and> toLowerCase (status (decision ai)) \<noteq> ''approved''
                        \<and> (alternative_reasoning ai = None \<or> alternative_reasoning ai = Some [])))
               \<longrightarrow> e = ''Manually approved by auditor based on provided evidence.'')"
  using assms
  by (auto simp: handleAction_def approveExplanation_def Let_def split: option.splits)

theorem handleAction_approved_explanation_witness:
  "truthy (Some ''loan'')
   \<and> handleAction (Some ''loan'') (Some example_case) A_Approved
       = UpdateApplicationStatus ''a1b2c3'' ''loan'' A_Approved ''Income verified manually.''"
proof -
  have h: "truthy (Some ''loan'')" by simp
  have l: "toLowerCase ''Denied'' \<noteq> ''approved''"
    by (simp add: toLowerCase_def lower_char_def)
  from handleAction_approved_explanation [OF h, of example_case] l
  show ?thesis
    by (auto simp: example_case_def example_ai_def)
qed

text \<open>
  C10. The result screen shows the denial (red cross, the decision text as heading) exactly
  when the lowercased decision text is \<open>denied\<close> or \<open>high risk\<close>; every other decision
  text, \<open>rejected\<close> and \<open>high_risk\<close> among them, gets the green check and the
  congratulations heading.
\<close>
theorem AiResult_denied_iff:
  "(view_icon (AiResult r) = RedCross
      \<longleftrightarrow> toLowerCase (decisionText r) = ''denied'' \<or> toLowerCase (decisionText r) = ''high risk'')
   \<and> (view_icon (AiResult r) = RedCross \<longrightarrow> view_heading (AiResult r) = decisionText r)
   \<and> (view_icon (AiResult r) \<noteq> RedCross \<longrightarrow>
        view_icon (AiResult r) = GreenCheck
        \<and> view_heading (AiResult r) = ''Congratulations! Your application has been approved.'')
   \<and> (\<forall>s cf. AiResult \<lparr> result_decision = DString ''rejected'', result_summary = s, result_counterfactuals = cf \<rparr>
         = \<lparr> view_icon = GreenCheck, view_heading = ''Congratulations! Your application has been approved.'',
             view_steps = None \<rparr>)
   \<and> (\<forall>s cf. AiResult \<lparr> result_decision = DString ''high_risk'', result_summary = s, result_counterfactuals = cf \<rparr>
         = \<lparr> view_icon = GreenCheck, view_heading = ''Congratulations! Your application has been approved.'',
             view_steps = None \<rparr>)"
  by (simp add: AiResult_def isApproved_def isDenied_def decisionText_def toLowerCase_def lower_char_def)

theorem AiResult_denied_iff_witness:
  "view_icon (AiResult \<lparr> result_decision = DString ''High Risk'', result_summary = ''s'',
                          result_counterfactuals = Some [''Lower the claim amount.''] \<rparr>) = RedCross
   \<and> view_heading (AiResult \<lparr> result_decision = DString ''High Risk'', result_summary = ''s'',
                          result_counterfactuals = Some [''Lower the claim amount.''] \<rparr>) = ''High Risk''
   \<and> view_icon (AiResult \<lparr> result_decision = DString ''Rejected'', result_summary = ''s'',
                          result_counterfactuals = None \<rparr>) = GreenCheck"
  using AiResult_denied_iff [of "\<lparr> result_decision = DString ''High Risk'', result_summary = ''s'',
                          result_counterfactuals = Some [''Lower the claim amount.''] \<rparr>"]
    AiResult_denied_iff [of "\<lparr> result_decision = DString ''Rejected'', result_summary = ''s'',
                          result_counterfactuals = None \<rparr>"]
  by (simp add: decisionText_def toLowerCase_def lower_char_def)

subsection \<open>Polling\<close>

text \<open>
  C5. While the portal waits, a tick leaves the waiting state exactly when the fetch gave a
  status whose label is not \<open>Pending\<close>; it then records the result (label, summary,
  counterfactuals), becomes completed and installs no further interval. A tick that sees
  the label \<open>Pending\<close> leaves the state as it was, interval included. The status poll has
  a period of 2000 ms, the dashboard listing one of 5000 ms.
\<close>
theorem pollTick_terminal_condition:
  assumes "pollStatus st = poll_waiting"
  shows "(pollStatus (pollTick fetched st) \<noteq> poll_waiting
            \<longleftrightarrow> (\<exists>s. fetched = Resolved (Some s) \<and> label (st_model_output s) \<noteq> ''Pending''))
       \<and> (\<forall>s. fetched = Resolved (Some s) \<and> label (st_model_output s) \<noteq> ''Pending'' \<longrightarrow>
             pollTick fetched st =
               st\<lparr> aiResult := Some \<lparr> result_decision = DString (label (st_model_output s)),
                                      result_summary = summary (st_explanation s),
                                      result_counterfactuals =
                                        (case st_ai_result s of None \<Rightarrow> None | Some ai \<Rightarrow> counterfactuals ai) \<rparr>,
                   pollStatus := poll_completed \<rparr>
             \<and> pollingInterval (pollTick fetched st) = None)
       \<and> (\<forall>s. fetched = Resolved (Some s) \<and> label (st_model_output s) = ''Pending'' \<longrightarrow>
             pollTick fetched st = st \<and> pollingInterval (pollTick fetched st) = pollingInterval st)
       \<and> (truthy (submittedId st) \<and> truthy (applicationType st) \<longrightarrow> pollingInterval st = Some 2000)
       \<and> dashboardPollingInterval = 5000"
  using assms
  by (auto simp: pollTick_def pollingInterval_def dashboardPollingInterval_def
           split: promise.splits option.splits)

theorem pollTick_terminal_condition_witness:
  "pollStatus example_portal = poll_waiting
   \<and> pollingInterval example_portal = Some 2000
   \<and> pollTick (Resolved (Some (example_status ''Pending''))) example_portal = example_portal
   \<and> pollStatus (pollTick (Resolved (Some (example_status ''Denied''))) example_portal) = poll_completed
   \<and> aiResult (pollTick (Resolved (Some (example_status ''Denied''))) example_portal)
       = Some \<lparr> result_decision = DString ''Denied'', result_summary = ''Credit score below threshold.'',
                result_counterfactuals = Some [''Raise the credit score above 600.''] \<rparr>"
proof -
  have h: "pollStatus example_portal = poll_waiting" by (simp add: example_portal_def)
  have t: "truthy (submittedId example_portal) \<and> truthy (applicationType example_portal)"
    by (simp add: example_portal_def)
  from pollTick_terminal_condition [OF h, of "Resolved (Some (example_status ''Pending''))"]
       pollTick_terminal_condition [OF h, of "Resolved (Some (example_status ''Denied''))"] h t
  show ?thesis
    by (simp add: example_status_def example_ai_def)
qed

text \<open>
  C6, as stated, fails on the dashboard listing: the first fetch runs with the loading
  indicator set, and when it fails the indicator is cleared, so the state after the failed
  fetch is not the state before it with a log line added.
\<close>
theorem fetchApplications_failure_clears_loading:
  "dash_loading dashboard_initial = True
   \<and> dash_loading (fetchApplications (\<lambda>q. Rejected ''Failed to fetch'') dashboard_initial) = False
   \<and> fetchApplications (\<lambda>q. Rejected ''Failed to fetch'') dashboard_initial
       \<noteq> dashboard_initial\<lparr> console := console dashboard_initial @ [''Failed to fetch''] \<rparr>"
  by (simp add: fetchApplications_def dashboard_initial_def)

text \<open>
  C6, amended. A failed fetch is logged and swallowed by the poller: the status poller
  keeps its whole state but for the log line, raises no alert and keeps its interval; the
  dashboard listing keeps its applications, selection and tab, raises no alert, adds the log
  line, and clears its loading indicator.
\<close>
theorem poll_failure_swallowed:
  "pollTick (Rejected e) st = st\<lparr> console := console st @ [''Polling Error '' @ e] \<rparr>
   \<and> alerts (pollTick (Rejected e) st) = alerts st
   \<and> pollingInterval (pollTick (Rejected e) st) = pollingInterval st
   \<and> (getApplications (statusQuery d) = Rejected e \<longrightarrow>
        fetchApplications getApplications d = d\<lparr> console := console d @ [e], dash_loading := False \<rparr>
        \<and> alerts (fetchApplications getApplications d) = alerts d
        \<and> applications (fetchApplications getApplications d) = applications d
        \<and> selectedApp (fetchApplications getApplications d) = selectedApp d
        \<and> activeTab (fetchApplications getApplications d) = activeTab d)"
proof -
  have tick: "pollTick (Rejected e) st = st\<lparr> console := console st @ [''Polling Error '' @ e] \<rparr>"
    by (simp add: pollTick_def)
  have listing: "fetchApplications getApplications d = d\<lparr> console := console d @ [e], dash_loading := False \<rparr>"
    if "getApplications (statusQuery d) = Rejected e"
    using that by (cases "applications d") (simp_all add: fetchApplications_def)
  from tick have "alerts (pollTick (Rejected e) st) = alerts st"
    and "pollingInterval (pollTick (Rejected e) st) = pollingInterval st"
    by (simp_all add: pollingInterval_def)
  with tick listing show ?thesis by simp
qed

theorem poll_failure_swallowed_witness:
  "pollTick (Rejected ''Failed to fetch'') example_portal
     = example_portal\<lparr> console := [''Polling Error Failed to fetch''] \<rparr>
   \<and> pollingInterval (pollTick (Rejected ''Failed to fetch'') example_portal) = Some 2000
   \<and> fetchApplications (\<lambda>q. Rejected ''Failed to fetch'') dashboard_initial
       = dashboard_initial\<lparr> console := [''Failed to fetch''], dash_loading := False \<rparr>"
  using poll_failure_swallowed [of "''Failed to fetch''" example_portal "\<lambda>q. Rejected ''Failed to fetch''" dashboard_initial]
  by (simp add: example_portal_def dashboard_initial_def pollingInterval_def)

subsection \<open>Failed mutations\<close>

lemma trim_example: "trim ''Reject scores below 500'' = ''Reject scores below 500''"
  by (simp add: trim_def isSpace_def)

text \<open>
  C8. What the policy manager does when adding or deleting a policy fails: the error goes
  to the console, the loading flag is cleared, and nothing else changes; no alert is
  raised and the state has no error message to show.
\<close>
theorem failed_policy_mutation_only_logged:
  "(trim (newPolicyText st) \<noteq> [] \<and> addPolicy (activeDomain st) (trim (newPolicyText st)) = Rejected e \<longrightarrow>
      handleAddPolicy addPolicy getPolicies st
        = st\<lparr> console := console st @ [''Error adding policy: '' @ e], pm_loading := False \<rparr>
      \<and> alerts (handleAddPolicy addPolicy getPolicies st) = alerts st)
   \<and> (deletePolicy (activeDomain st) policyId = Rejected e \<longrightarrow>
      handleDeletePolicy deletePolicy getPolicies policyId st
        = st\<lparr> console := console st @ [''Error deleting policy: '' @ e], pm_loading := False \<rparr>
      \<and> alerts (handleDeletePolicy deletePolicy getPolicies policyId st) = alerts st)"
proof (intro conjI impI)
  assume add: "trim (newPolicyText st) \<noteq> [] \<and> addPolicy (activeDomain st) (trim (newPolicyText st)) = Rejected e"
  then show "handleAddPolicy addPolicy getPolicies st
        = st\<lparr> console := console st @ [''Error adding policy: '' @ e], pm_loading := False \<rparr>"
    by (simp add: handleAddPolicy_def Let_def)
  then show "alerts (handleAddPolicy addPolicy getPolicies st) = alerts st"
    by simp
next
  assume del: "deletePolicy (activeDomain st) policyId = Rejected e"
  then show "handleDeletePolicy deletePolicy getPolicies policyId st
        = st\<lparr> console := console st @ [''Error deleting policy: '' @ e], pm_loading := False \<rparr>"
    by (simp add: handleDeletePolicy_def Let_def)
  then show "alerts (handleDeletePolicy deletePolicy getPolicies policyId st) = alerts st"
    by simp
qed

theorem failed_policy_mutation_only_logged_witness:
  "handleAddPolicy (\<lambda>d t. Rejected ''Network Error'') (Resolved []) example_policy_manager
     = example_policy_manager\<lparr> console := [''Error adding policy: Network Error''] \<rparr>
   \<and> alerts (handleAddPolicy (\<lambda>d t. Rejected ''Network Error'') (Resolved []) example_policy_manager) = []
   \<and> handleDeletePolicy (\<lambda>d i. Rejected ''Network Error'') (Resolved []) ''p1'' example_policy_manager
     = example_policy_manager\<lparr> console := [''Error deleting policy: Network Error''] \<rparr>"
  using failed_policy_mutation_only_logged [of example_policy_manager "\<lambda>d t. Rejected ''Network Error''"
          "''Network Error''" "Resolved []" "\<lambda>d t. Rejected ''Network Error''" "''p1''"]
  by (simp add: example_policy_manager_def trim_example)

text \<open>
  The other mutating handlers surface a failure: the policy file upload and the review
  decision raise an alert, the explanation editor and the customer page set their error
  message, the portal raises an alert.
\<close>
lemma handleFileUpload_failure_alerts:
  "uploadPolicyFile (activeDomain st) file = Rejected e \<Longrightarrow>
     alerts (handleFileUpload uploadPolicyFile getPolicies file st)
       = alerts st @ [''Error uploading file. Please check the format.'']"
  by (simp add: handleFileUpload_def Let_def)

lemma handleDecision_failure_alerts:
  "selectedApp st = Some app \<Longrightarrow> reviewApplication (app_id app) dec ''Manual review by employee'' = Rejected e \<Longrightarrow>
     alerts (handleDecision reviewApplication dec st)
       = alerts st @ [''Failed to submit decision. Please refresh.'']"
  by (simp add: handleDecision_def Let_def)

lemma handleSave_failure_shows_error:
  "trim (ed_explanation st) \<noteq> [] \<Longrightarrow>
   perform (if hasOnSubmit then OnSubmit (trim (ed_explanation st))
            else UpdateExplanation applicationId (trim (ed_explanation st))) = Rejected e \<Longrightarrow>
     ed_error (fst (handleSave applicationId hasOnSubmit perform st))
       = Some ''Failed to save explanation. Please try again.''"
  by (simp add: handleSave_def Let_def)

lemma handleFormSubmit_failure_alerts:
  "(\<And>payload. submitApplication (applicationType st) payload = Rejected e) \<Longrightarrow>
     alerts (handleFormSubmit FORM_FIELDS submitApplication st)
       = alerts st @ [''Submission failed. Please try again.'']"
  by (simp add: handleFormSubmit_def Let_def)

lemma handleSubmit_failure_shows_error:
  "(\<And>payload. submitApplication (page_domain st) payload = Rejected e) \<Longrightarrow>
     page_error (handleSubmit submitApplication st)
       = Some (if e \<noteq> [] then e else ''Failed to submit application'')"
  by (simp add: handleSubmit_def Let_def)

text \<open>
  In edit mode the editor passes the trimmed text to \<open>updateExplanation\<close>, and a blank
  text is refused before any call is made.
\<close>

lemma handleSave_edit_calls_updateExplanation:
  "trim (ed_explanation st) \<noteq> [] \<Longrightarrow>
   perform (UpdateExplanation applicationId (trim (ed_explanation st))) = Resolved () \<Longrightarrow>
     snd (handleSave applicationId False perform st)
       = [UpdateExplanation applicationId (trim (ed_explanation st)), OnSave, OnClose]"
  by (simp add: handleSave_def Let_def)

lemma handleSave_blank_refused:
  "trim (ed_explanation st) = [] \<Longrightarrow>
     handleSave applicationId hasOnSubmit perform st
       = (st\<lparr> ed_error := Some ''Explanation cannot be empty'' \<rparr>, [])"
  by (simp add: handleSave_def)

subsection \<open>Numeric texts\<close>

text \<open>
  The reader accepts exactly the texts of the decimal notation: \<open>parse_decimal\<close> yields a
  value if and only if the text is a \<open>numeric_literal\<close>.
\<close>

lemmas parse_eval = parse_decimal_def split_sign_def split_fraction_def is_digit_def digit_of_def
  parse_exponent_def scale10_def digits_nat_def Let_def

lemma parse_decimal_examples:
  "parse_decimal ''4200.50'' = Some (8401 / 2)"
  "parse_decimal ''1e3'' = Some 1000"
  "parse_decimal ''550'' = Some 550"
  "parse_decimal ''-.5E-2'' = Some (- 1 / 200)"
  "parse_decimal ''5.'' = Some 5"
  "parse_decimal ''.'' = None"
  "parse_decimal ''12px'' = None"
  "parse_decimal ''five hundred'' = None"
  by (simp_all add: parse_eval)

lemma not_digit [simp]:
  "\<not> is_digit CHR ''.''" "\<not> is_digit CHR ''e''" "\<not> is_digit CHR ''E''"
  "\<not> is_digit CHR ''+''" "\<not> is_digit CHR ''-''"
  by (simp_all add: is_digit_def digit_of_def)

lemma span_digits:
  assumes "list_all P xs" and "r = [] \<or> \<not> P (hd r)"
  shows "takeWhile P (xs @ r) = xs" and "dropWhile P (xs @ r) = r"
proof -
  have base: "takeWhile P r = [] \<and> dropWhile P r = r"
    using assms(2) by (cases r) auto
  from assms(1) base show "takeWhile P (xs @ r) = xs" and "dropWhile P (xs @ r) = r"
    by (induction xs) auto
qed

lemma takeWhile_digits: "list_all is_digit (takeWhile is_digit xs)"
  by (induction xs) auto

lemma split_sign_decompose:
  "\<exists>sg. s = sg @ snd (split_sign s) \<and> sg \<in> sign_texts"
  by (cases s) (auto simp: split_sign_def sign_texts_def)

lemma split_sign_compose:
  assumes "sg \<in> sign_texts" and "b \<noteq> []" and "hd b \<noteq> CHR ''+''" and "hd b \<noteq> CHR ''-''"
  shows "snd (split_sign (sg @ b)) = b"
  using assms by (cases b) (auto simp: split_sign_def sign_texts_def)

lemma parse_exponent_accepts:
  "(\<exists>e. parse_exponent r = Some e) \<longleftrightarrow>
     (case r of
        [] \<Rightarrow> True
      | c # cs \<Rightarrow> (c = CHR ''e'' \<or> c = CHR ''E'')
                 \<and> snd (split_sign cs) \<noteq> [] \<and> list_all is_digit (snd (split_sign cs)))"
  by (cases r) (simp_all add: parse_exponent_def Let_def)

lemma parse_exponent_iff: "(\<exists>e. parse_exponent r = Some e) \<longleftrightarrow> r = [] \<or> exponent_part r"
proof (cases r)
  case Nil
  then show ?thesis by (simp add: parse_exponent_accepts)
next
  case (Cons c cs)
  have "exponent_part r \<longleftrightarrow>
          (c = CHR ''e'' \<or> c = CHR ''E'') \<and> snd (split_sign cs) \<noteq> [] \<and> list_all is_digit (snd (split_sign cs))"
  proof
    assume "exponent_part r"
    then obtain sg ds where cs: "cs = sg @ ds" and c: "c = CHR ''e'' \<or> c = CHR ''E''"
      and sg: "sg \<in> sign_texts" and ds: "ds \<noteq> []" "list_all is_digit ds"
      unfolding exponent_part_def Cons by auto
    from ds have "is_digit (hd ds)" by (cases ds) simp_all
    then have "hd ds \<noteq> CHR ''+''" "hd ds \<noteq> CHR ''-''" by auto
    with sg ds have "snd (split_sign (sg @ ds)) = ds"
      by (simp add: split_sign_compose)
    with cs c ds show "(c = CHR ''e'' \<or> c = CHR ''E'') \<and> snd (split_sign cs) \<noteq> []
        \<and> list_all is_digit (snd (split_sign cs))"
      by simp
  next
    assume a: "(c = CHR ''e'' \<or> c = CHR ''E'') \<and> snd (split_sign cs) \<noteq> []
        \<and> list_all is_digit (snd (split_sign cs))"
    obtain sg where "cs = sg @ snd (split_sign cs)" "sg \<in> sign_texts"
      using split_sign_decompose by blast
    with a Cons show "exponent_part r"
      unfolding exponent_part_def by blast
  qed
  with Cons show ?thesis by (simp add: parse_exponent_accepts)
qed

lemma exponent_part_hd: "exponent_part ex \<Longrightarrow> ex \<noteq> [] \<and> \<not> is_digit (hd ex) \<and> hd ex \<noteq> CHR ''.''"
  unfolding exponent_part_def by auto

lemma parse_decimal_accepts:
  "(\<exists>v. parse_decimal s = Some v) \<longleftrightarrow>
     (takeWhile is_digit (snd (split_sign s)) \<noteq> []
        \<or> fst (split_fraction (dropWhile is_digit (snd (split_sign s)))) \<noteq> [])
     \<and> (snd (split_fraction (dropWhile is_digit (snd (split_sign s)))) = []
        \<or> exponent_part (snd (split_fraction (dropWhile is_digit (snd (split_sign s))))))"
  unfolding parse_exponent_iff [symmetric]
  by (auto simp: parse_decimal_def Let_def split: option.splits)

lemma parse_decimal_sound:
  assumes "\<exists>v. parse_decimal s = Some v"
  shows "numeric_literal s"
proof -
  define body where "body = snd (split_sign s)"
  define ip where "ip = takeWhile is_digit body"
  define r1 where "r1 = dropWhile is_digit body"
  define fp where "fp = fst (split_fraction r1)"
  define ex where "ex = snd (split_fraction r1)"
  obtain sg where sg: "s = sg @ body" "sg \<in> sign_texts"
    using split_sign_decompose [of s] unfolding body_def by blast
  have body: "body = ip @ r1" by (simp add: ip_def r1_def)
  have ip: "list_all is_digit ip" by (simp add: ip_def takeWhile_digits)
  from assms have ne: "ip \<noteq> [] \<or> fp \<noteq> []" and exp: "ex = [] \<or> exponent_part ex"
    unfolding parse_decimal_accepts body_def ip_def r1_def fp_def ex_def by blast+
  show ?thesis
  proof (cases "r1 \<noteq> [] \<and> hd r1 = CHR ''.''")
    case True
    then obtain cs where r1: "r1 = CHR ''.'' # cs" by (cases r1) auto
    then have fp': "fp = takeWhile is_digit cs" and ex': "ex = dropWhile is_digit cs"
      by (simp_all add: fp_def ex_def split_fraction_def)
    then have cs: "cs = fp @ ex" by simp
    have f: "list_all is_digit fp" by (simp add: fp' takeWhile_digits)
    from sg body r1 cs have "s = sg @ ip @ (CHR ''.'' # fp) @ ex" by simp
    with sg(2) ip f ne exp show ?thesis unfolding numeric_literal_def by blast
  next
    case False
    then have "fp = []" and "ex = r1"
      by (cases r1; simp add: fp_def ex_def split_fraction_def)+
    with ne exp have "ip \<noteq> []" and "r1 = [] \<or> exponent_part r1" by simp_all
    moreover from sg body have "s = sg @ ip @ [] @ r1" by simp
    ultimately show ?thesis using sg(2) ip unfolding numeric_literal_def by blast
  qed
qed

lemma parse_decimal_complete:
  assumes "numeric_literal s"
  shows "\<exists>v. parse_decimal s = Some v"
proof -
  from assms obtain sg ip fp ex where s: "s = sg @ ip @ fp @ ex" and sg: "sg \<in> sign_texts"
    and ip: "list_all is_digit ip"
    and fp: "fp = [] \<or> (\<exists>f. fp = CHR ''.'' # f \<and> list_all is_digit f)"
    and ne: "ip \<noteq> [] \<or> (\<exists>f. fp = CHR ''.'' # f \<and> f \<noteq> [])"
    and ex: "ex = [] \<or> exponent_part ex"
    unfolding numeric_literal_def by blast
  define body where "body = ip @ fp @ ex"
  have exhd: "ex = [] \<or> (\<not> is_digit (hd ex) \<and> hd ex \<noteq> CHR ''.'')"
    using ex exponent_part_hd by blast
  have rest: "fp @ ex = [] \<or> \<not> is_digit (hd (fp @ ex))"
    using fp exhd by auto
  have "body \<noteq> [] \<and> hd body \<noteq> CHR ''+'' \<and> hd body \<noteq> CHR ''-''"
  proof (cases ip)
    case Nil
    with ne obtain f where "fp = CHR ''.'' # f" by blast
    with Nil show ?thesis by (simp add: body_def)
  next
    case (Cons d ds)
    with ip have "is_digit d" by simp
    then have "d \<noteq> CHR ''+''" "d \<noteq> CHR ''-''" by auto
    with Cons show ?thesis by (simp add: body_def)
  qed
  with sg have "snd (split_sign (sg @ body)) = body"
    by (simp add: split_sign_compose)
  with s have b: "snd (split_sign s) = body" by (simp add: body_def)
  have tk: "takeWhile is_digit body = ip" and dr: "dropWhile is_digit body = fp @ ex"
    unfolding body_def using span_digits [OF ip rest] by simp_all
  have "(ip \<noteq> [] \<or> fst (split_fraction (fp @ ex)) \<noteq> [])
        \<and> snd (split_fraction (fp @ ex)) = ex"
  proof (cases fp)
    case Nil
    with ne have "ip \<noteq> []" by simp
    moreover from exhd have "snd (split_fraction ex) = ex"
      by (cases ex) (simp_all add: split_fraction_def)
    ultimately show ?thesis using Nil by simp
  next
    case (Cons c f)
    with fp have c: "c = CHR ''.''" and f: "list_all is_digit f" by simp_all
    from exhd have r: "ex = [] \<or> \<not> is_digit (hd ex)" by blast
    have "takeWhile is_digit (f @ ex) = f" and "dropWhile is_digit (f @ ex) = ex"
      using span_digits [OF f r] by simp_all
    moreover from ne Cons have "ip \<noteq> [] \<or> f \<noteq> []" by auto
    ultimately show ?thesis using Cons c by (simp add: split_fraction_def)
  qed
  with ex b tk dr show ?thesis
    unfolding parse_decimal_accepts by simp
qed

lemma parse_decimal_iff: "(\<exists>v. parse_decimal s = Some v) \<longleftrightarrow> numeric_literal s"
  using parse_decimal_sound parse_decimal_complete by blast

lemma parses_as_number_iff:
  "parses_as_number v \<longleftrightarrow> (\<exists>r. v = SNum r) \<or> (\<exists>t. v = SStr t \<and> numeric_literal (trim t))"
  by (cases v) (simp_all add: parse_decimal_iff)

lemma trim_examples:
  "trim ''4200.50'' = ''4200.50''" "trim ''1e3'' = ''1e3''" "trim '' 550 '' = ''550''"
  "trim ''five hundred'' = ''five hundred''"
  by (simp_all add: trim_def isSpace_def)

lemma trim_no_break_space: "trim [CHR 0xA0, CHR '' '', CHR 0x09] = []"
  by (simp add: trim_def isSpace_def)

lemma number_toString_examples:
  "number_toString 17 = ''17''"
  "number_toString (25 / 2) = ''12.5''"
  "number_toString (- 1203) = ''-1203''"
  "number_toString (1 / 200) = ''0.005''"
  "number_toString 0 = ''0''"
  by code_simp+

lemma numeric_literal_examples:
  "numeric_literal (trim ''4200.50'')" "numeric_literal (trim ''1e3'')"
  "numeric_literal (trim '' 550 '')" "\<not> numeric_literal (trim ''five hundred'')"
proof -
  have "\<exists>v. parse_decimal ''4200.50'' = Some v" "\<exists>v. parse_decimal ''1e3'' = Some v"
    "\<exists>v. parse_decimal ''550'' = Some v"
    using parse_decimal_examples by blast+
  moreover have "\<not> (\<exists>v. parse_decimal ''five hundred'' = Some v)"
    by (simp add: parse_decimal_examples)
  ultimately show "numeric_literal (trim ''4200.50'')" "numeric_literal (trim ''1e3'')"
    "numeric_literal (trim '' 550 '')" "\<not> numeric_literal (trim ''five hundred'')"
    unfolding trim_examples parse_decimal_iff .
qed

subsection \<open>The workflow\<close>

lemma oc_new: "override_consistent (new_record i now d payload)"
  by (simp add: override_consistent_def new_record_def)

lemma oc_edit: "override_consistent r0 \<Longrightarrow> override_consistent (r0\<lparr> explanation := e \<rparr>)"
  by (cases "ai_result r0") (simp_all add: override_consistent_def)

lemma oc_classify:
  "override_consistent r0 \<Longrightarrow> rec_status r0 = pending_ai \<Longrightarrow>
     override_consistent (r0\<lparr> model_output := m, explanation := e, ai_result := a, rec_status := st \<rparr>)"
  by (simp add: override_consistent_def)

lemma oc_human:
  "override_consistent r0 \<Longrightarrow>
     override_consistent
       (r0\<lparr> model_output := (model_output r0)\<lparr> label := action_text act \<rparr>,
            explanation := e,
            is_override :=
              (case ai_result r0 of
                 None \<Rightarrow> is_override r0
               | Some ai \<Rightarrow> toLowerCase (action_text act) \<noteq> toLowerCase (status (decision ai))),
            rec_status := completed \<rparr>)"
  by (cases "ai_result r0") (simp_all add: override_consistent_def)

lemma submit_records:
  "records (snd (submit s now d payload)) i = Some r \<Longrightarrow>
     records s i = Some r \<or> (\<exists>j. r = new_record j now d payload)"
  by (cases "validate d payload"; cases "i = ''app-'' @ nat_digits (next_id s)")
     (auto simp: submit_def Let_def)

lemma classify_records:
  "records (snd (classify s j answer clear_cut)) i = Some r \<Longrightarrow>
     records s i = Some r
     \<or> (\<exists>r0 m e a st. records s j = Some r0 \<and> rec_status r0 = pending_ai
            \<and> r = r0\<lparr> model_output := m, explanation := e, ai_result := a, rec_status := st \<rparr>)"
proof (cases "records s j")
  case None
  then show "records (snd (classify s j answer clear_cut)) i = Some r \<Longrightarrow> ?thesis"
    by (simp add: classify_def)
next
  case (Some r0)
  assume look: "records (snd (classify s j answer clear_cut)) i = Some r"
  show ?thesis
  proof (cases "rec_status r0 = pending_ai \<and> answer \<noteq> None \<and> i = j")
    case True
    then obtain ai where "answer = Some ai" by blast
    with True Some look show ?thesis
      by (simp add: classify_def) blast
  next
    case False
    with Some look have "records s i = Some r"
      by (cases answer) (auto simp: classify_def split: if_splits)
    then show ?thesis by simp
  qed
qed

lemma humanDecide_records:
  "records (snd (humanDecide s j act text)) i = Some r \<Longrightarrow>
     records s i = Some r
     \<or> (\<exists>r0. records s j = Some r0
            \<and> r = r0\<lparr> model_output := (model_output r0)\<lparr> label := action_text act \<rparr>,
                       explanation := \<lparr> summary = text \<rparr>,
                       is_override :=
                         (case ai_result r0 of
                            None \<Rightarrow> is_override r0
                          | Some ai \<Rightarrow> toLowerCase (action_text act) \<noteq> toLowerCase (status (decision ai))),
                       rec_status := completed \<rparr>)"
proof (cases "records s j")
  case None
  then show "records (snd (humanDecide s j act text)) i = Some r \<Longrightarrow> ?thesis"
    by (simp add: humanDecide_def)
next
  case (Some r0)
  assume look: "records (snd (humanDecide s j act text)) i = Some r"
  show ?thesis
  proof (cases "rec_status r0 \<noteq> pending_ai \<and> i = j")
    case True
    with Some look show ?thesis by (simp add: humanDecide_def)
  next
    case False
    with Some look have "records s i = Some r"
      by (auto simp: humanDecide_def split: if_splits)
    then show ?thesis by simp
  qed
qed

lemma editExplanation_records:
  "records (snd (editExplanation s j text)) i = Some r \<Longrightarrow>
     records s i = Some r \<or> (\<exists>r0. records s j = Some r0 \<and> r = r0\<lparr> explanation := \<lparr> summary = text \<rparr> \<rparr>)"
  by (cases "records s j"; cases "i = j") (auto simp: editExplanation_def)

lemma reachable_override_consistent:
  "reachable s \<Longrightarrow> records s i = Some r \<Longrightarrow> override_consistent r"
proof (induction arbitrary: i r rule: reachable.induct)
  case reach_empty
  then show ?case by (simp add: empty_store_def)
next
  case (reach_submit s now d payload)
  from submit_records [OF reach_submit.prems] reach_submit.IH show ?case
    using oc_new by blast
next
  case (reach_classify s j answer clear_cut)
  from classify_records [OF reach_classify.prems] reach_classify.IH show ?case
    using oc_classify by blast
next
  case (reach_humanDecide s j act expl)
  from humanDecide_records [OF reach_humanDecide.prems] reach_humanDecide.IH show ?case
    using oc_human by blast
next
  case (reach_editExplanation s j expl)
  from editExplanation_records [OF reach_editExplanation.prems] reach_editExplanation.IH show ?case
    using oc_edit by blast
qed

lemma validate_example: "validate ''loan'' example_payload"
  using numeric_literal_examples
  by (simp add: validate_def schema_def example_payload_def parses_as_number_iff)

lemma store1_eq:
  "store1 = \<lparr> records = [''app-0'' \<mapsto> new_record ''app-0'' ''2024-05-01'' ''loan'' example_payload], next_id = 1 \<rparr>"
  using validate_example by (simp add: store1_def submit_def empty_store_def Let_def nat_digits.simps digit_char_def)

lemma store2_lookup:
  "records store2 ''app-0''
     = Some ((new_record ''app-0'' ''2024-05-01'' ''loan'' example_payload)
         \<lparr> model_output := \<lparr> label = ''Denied'', confidence = 82 / 100 \<rparr>,
            explanation := \<lparr> summary = ''Credit score below threshold.'' \<rparr>,
            ai_result := Some example_ai, rec_status := pending_human \<rparr>)"
  by (simp add: store2_def store1_eq classify_def new_record_def example_ai_def)

lemma store3_lookup:
  "records store3 ''app-0''
     = Some ((new_record ''app-0'' ''2024-05-01'' ''loan'' example_payload)
         \<lparr> model_output := \<lparr> label = ''Approved'', confidence = 82 / 100 \<rparr>,
            explanation := \<lparr> summary = ''Approved after manual income verification'' \<rparr>,
            ai_result := Some example_ai, is_override := True, rec_status := completed \<rparr>)"
  by (simp add: store3_def humanDecide_def store2_lookup new_record_def example_ai_def
        toLowerCase_def lower_char_def)

lemma reachable_store2: "reachable store2"
  unfolding store2_def store1_def by (intro reachable.intros)

lemma reachable_store3: "reachable store3"
  unfolding store3_def store2_def store1_def by (intro reachable.intros)

text \<open>
  C2. In every store the workflow can reach, a record with the override flag set is
  completed, has an AI result, and its label (the human's final decision) differs,
  lowercased, from the AI's status. HumanDecide on a record with an AI result sets the flag
  to that comparison, sets the label to the decision and completes the record.
\<close>
theorem is_override_invariant:
  assumes "reachable s" and "records s i = Some r"
  shows "(is_override r \<longrightarrow>
            rec_status r = completed
            \<and> (\<exists>ai. ai_result r = Some ai
                   \<and> toLowerCase (label (model_output r)) \<noteq> toLowerCase (status (decision ai))))
       \<and> (\<forall>act text ai. ai_result r = Some ai \<and> rec_status r \<noteq> pending_ai \<longrightarrow>
             (\<exists>r'. humanDecide s i act text = (Inr (), s\<lparr> records := (records s)(i \<mapsto> r') \<rparr>)
                  \<and> is_override r' = (toLowerCase (action_text act) \<noteq> toLowerCase (status (decision ai)))
                  \<and> label (model_output r') = action_text act
                  \<and> rec_status r' = completed))"
proof (intro conjI)
  show "is_override r \<longrightarrow>
            rec_status r = completed
            \<and> (\<exists>ai. ai_result r = Some ai
                   \<and> toLowerCase (label (model_output r)) \<noteq> toLowerCase (status (decision ai)))"
    using reachable_override_consistent [OF assms]
    by (cases "ai_result r") (simp_all add: override_consistent_def)
next
  show "\<forall>act text ai. ai_result r = Some ai \<and> rec_status r \<noteq> pending_ai \<longrightarrow>
             (\<exists>r'. humanDecide s i act text = (Inr (), s\<lparr> records := (records s)(i \<mapsto> r') \<rparr>)
                  \<and> is_override r' = (toLowerCase (action_text act) \<noteq> toLowerCase (status (decision ai)))
                  \<and> label (model_output r') = action_text act
                  \<and> rec_status r' = completed)"
    using assms(2) by (auto simp: humanDecide_def)
qed

theorem is_override_invariant_witness:
  "reachable store3
   \<and> (\<exists>r. records store3 ''app-0'' = Some r \<and> is_override r \<and> rec_status r = completed
          \<and> label (model_output r) = ''Approved''
          \<and> map_option (\<lambda>ai. status (decision ai)) (ai_result r) = Some ''Denied'')
   \<and> (\<exists>r. records store2 ''app-0'' = Some r \<and> \<not> is_override r \<and> rec_status r = pending_human
          \<and> snd (humanDecide store2 ''app-0'' A_Approved ''Approved after manual income verification'') = store3)"
proof -
  note a = is_override_invariant [OF reachable_store3 store3_lookup]
  note b = is_override_invariant [OF reachable_store2 store2_lookup]
  have c: "snd (humanDecide store2 ''app-0'' A_Approved ''Approved after manual income verification'') = store3"
    by (simp add: store3_def)
  from a b c show ?thesis
    by (simp add: reachable_store3 store3_lookup store2_lookup new_record_def example_ai_def)
qed

lemma invalid_field_fails:
  assumes "schema d = Some fs" and "(n, k) \<in> set fs"
    and "map_of payload n = None \<or> (k = NumberField \<and> (\<exists>v. map_of payload n = Some v \<and> \<not> parses_as_number v))"
  shows "\<not> validate d payload"
proof -
  have "\<not> field_valid payload (n, k)" using assms(3) by auto
  then have "\<not> list_all (field_valid payload) fs"
    using assms(2) unfolding list_all_iff by blast
  then show ?thesis using assms(1) by (simp add: validate_def)
qed

lemma valid_fields_pass:
  assumes "schema d = Some fs"
    and "\<forall>(n, k) \<in> set fs. \<exists>v. map_of payload n = Some v \<and> (k = NumberField \<longrightarrow> parses_as_number v)"
  shows "validate d payload"
proof -
  have "field_valid payload f" if "f \<in> set fs" for f
  proof -
    obtain n k where f: "f = (n, k)" by (cases f)
    with assms(2) that obtain v where "map_of payload n = Some v" "k = NumberField \<longrightarrow> parses_as_number v"
      by fastforce
    then show ?thesis unfolding f by (cases k) simp_all
  qed
  then show ?thesis using assms(1) by (simp add: validate_def list_all_iff)
qed

text \<open>
  C3. Submit rejects a payload with a validation error and leaves the store as it was
  whenever a required field of the domain's schema is missing or a number field holds
  \<open>NaN\<close> or a text that is not a numeric literal (a value that does not parse as a
  number); a payload with every required field present and every number field holding a
  number or a numeric literal, fractions and exponents included, is stored as a new record
  in \<open>pending_ai\<close>, labelled \<open>Pending\<close> and without an AI result, and that record is
  returned.
\<close>
theorem submit_validation:
  "(schema d = Some fs \<and> (n, k) \<in> set fs
      \<and> (map_of payload n = None
          \<or> (k = NumberField
              \<and> (map_of payload n = Some SNaN
                  \<or> (\<exists>t. map_of payload n = Some (SStr t) \<and> \<not> numeric_literal (trim t)))))
      \<longrightarrow> (\<exists>m. submit s now d payload = (Inl (ValidationError m), s)))
   \<and> (schema d = Some fs
      \<and> (\<forall>(n, k) \<in> set fs. \<exists>v. map_of payload n = Some v
              \<and> (k = NumberField \<longrightarrow> (\<exists>r. v = SNum r) \<or> (\<exists>t. v = SStr t \<and> numeric_literal (trim t))))
      \<longrightarrow> (\<exists>r. submit s now d payload
                  = (Inr r, s\<lparr> records := (records s)(decision_id r \<mapsto> r), next_id := Suc (next_id s) \<rparr>)
               \<and> rec_status r = pending_ai \<and> label (model_output r) = ''Pending''
               \<and> ai_result r = None \<and> \<not> is_override r
               \<and> domain r = d \<and> input_features r = payload))"
proof (intro conjI impI)
  assume "schema d = Some fs \<and> (n, k) \<in> set fs
      \<and> (map_of payload n = None
          \<or> (k = NumberField
              \<and> (map_of payload n = Some SNaN
                  \<or> (\<exists>t. map_of payload n = Some (SStr t) \<and> \<not> numeric_literal (trim t)))))"
  then have "schema d = Some fs \<and> (n, k) \<in> set fs
      \<and> (map_of payload n = None
          \<or> (k = NumberField \<and> (\<exists>v. map_of payload n = Some v \<and> \<not> parses_as_number v)))"
    by (auto simp: parses_as_number_iff)
  then have "\<not> validate d payload" using invalid_field_fails by blast
  then show "\<exists>m. submit s now d payload = (Inl (ValidationError m), s)"
    by (simp add: submit_def)
next
  assume "schema d = Some fs
      \<and> (\<forall>(n, k) \<in> set fs. \<exists>v. map_of payload n = Some v
              \<and> (k = NumberField \<longrightarrow> (\<exists>r. v = SNum r) \<or> (\<exists>t. v = SStr t \<and> numeric_literal (trim t))))"
  then have "schema d = Some fs
      \<and> (\<forall>(n, k) \<in> set fs. \<exists>v. map_of payload n = Some v \<and> (k = NumberField \<longrightarrow> parses_as_number v))"
    unfolding parses_as_number_iff .
  then have "validate d payload" using valid_fields_pass by blast
  then show "\<exists>r. submit s now d payload
                  = (Inr r, s\<lparr> records := (records s)(decision_id r \<mapsto> r), next_id := Suc (next_id s) \<rparr>)
               \<and> rec_status r = pending_ai \<and> label (model_output r) = ''Pending''
               \<and> ai_result r = None \<and> \<not> is_override r
               \<and> domain r = d \<and> input_features r = payload"
    by (simp add: submit_def Let_def new_record_def)
qed

theorem submit_validation_witness:
  "(\<exists>m. submit empty_store ''2024-05-01'' ''loan'' example_bad_payload
          = (Inl (ValidationError m), empty_store))
   \<and> (\<exists>m. submit empty_store ''2024-05-01'' ''loan'' (AList.delete ''loan_amount'' example_payload)
          = (Inl (ValidationError m), empty_store))
   \<and> (\<exists>r. submit empty_store ''2024-05-01'' ''loan'' example_payload
          = (Inr r, empty_store\<lparr> records := (records empty_store)(decision_id r \<mapsto> r),
                                 next_id := Suc (next_id empty_store) \<rparr>)
        \<and> rec_status r = pending_ai \<and> label (model_output r) = ''Pending'' \<and> ai_result r = None)"
proof -
  let ?fs = "the (schema ''loan'')"
  have sch: "schema ''loan'' = Some ?fs" by (simp add: schema_def)
  have b1: "(''credit_score'', NumberField) \<in> set ?fs" by (simp add: schema_def)
  have b2: "map_of example_bad_payload ''credit_score'' = Some (SStr ''five hundred'')"
    by (simp add: example_bad_payload_def example_payload_def)
  have m1: "(''loan_amount'', NumberField) \<in> set ?fs" by (simp add: schema_def)
  have m2: "map_of (AList.delete ''loan_amount'' example_payload) ''loan_amount'' = None"
    by (simp add: example_payload_def)
  have g1: "\<forall>(n, k) \<in> set ?fs. \<exists>v. map_of example_payload n = Some v
              \<and> (k = NumberField \<longrightarrow> (\<exists>r. v = SNum r) \<or> (\<exists>t. v = SStr t \<and> numeric_literal (trim t)))"
    using numeric_literal_examples by (simp add: schema_def example_payload_def)
  from submit_validation [of "''loan''" ?fs "''credit_score''" NumberField example_bad_payload
         empty_store "''2024-05-01''"] sch b1 b2 numeric_literal_examples(4)
  have r1: "\<exists>m. submit empty_store ''2024-05-01'' ''loan'' example_bad_payload
          = (Inl (ValidationError m), empty_store)"
    by blast
  from submit_validation [of "''loan''" ?fs "''loan_amount''" NumberField
         "AList.delete ''loan_amount'' example_payload" empty_store "''2024-05-01''"] sch m1 m2
  have r2: "\<exists>m. submit empty_store ''2024-05-01'' ''loan'' (AList.delete ''loan_amount'' example_payload)
          = (Inl (ValidationError m), empty_store)"
    by blast
  from submit_validation [of "''loan''" ?fs "''loan_amount''" NumberField example_payload
         empty_store "''2024-05-01''"] sch g1
  have r3: "\<exists>r. submit empty_store ''2024-05-01'' ''loan'' example_payload
          = (Inr r, empty_store\<lparr> records := (records empty_store)(decision_id r \<mapsto> r),
                                 next_id := Suc (next_id empty_store) \<rparr>)
        \<and> rec_status r = pending_ai \<and> label (model_output r) = ''Pending'' \<and> ai_result r = None"
    by blast
  from r1 r2 r3 show ?thesis by blast
qed

text \<open>
  C4. Editing the explanation of a stored record succeeds, and the record read back has the
  new text as its summary and the same lifecycle state, model output, override flag and AI
  result; no other record and nothing else in the store changes.
\<close>
theorem editExplanation_roundtrip:
  assumes "records s i = Some r"
  shows "fst (editExplanation s i text) = Inr ()
       \<and> get (snd (editExplanation s i text)) i = Inr (r\<lparr> explanation := \<lparr> summary = text \<rparr> \<rparr>)
       \<and> (\<exists>r'. get (snd (editExplanation s i text)) i = Inr r'
              \<and> summary (explanation r') = text
              \<and> rec_status r' = rec_status r
              \<and> model_output r' = model_output r
              \<and> is_override r' = is_override r
              \<and> ai_result r' = ai_result r)
       \<and> (\<forall>j. j \<noteq> i \<longrightarrow> records (snd (editExplanation s i text)) j = records s j)
       \<and> next_id (snd (editExplanation s i text)) = next_id s"
  using assms by (simp add: editExplanation_def get_def)

theorem editExplanation_roundtrip_witness:
  "\<exists>r'. get (snd (editExplanation store2 ''app-0'' ''Please send a proof of income.'')) ''app-0'' = Inr r'
       \<and> summary (explanation r') = ''Please send a proof of income.''
       \<and> rec_status r' = pending_human
       \<and> model_output r' = \<lparr> label = ''Denied'', confidence = 82 / 100 \<rparr>
       \<and> is_override r' = False"
  using editExplanation_roundtrip [OF store2_lookup, of "''Please send a proof of income.''"]
  by (simp add: new_record_def)

end
